theory Spec2Isabelle
  imports Main
begin

section \<open>JavaScript values handled by the proxy\<close>

text \<open>
  The plugin \<^verbatim>\<open>openai-server.ts\<close> works on untyped values (\<^verbatim>\<open>any\<close>): the parsed
  request body and whatever the backend client returns. They are modelled as JSON values
  extended with \<^verbatim>\<open>undefined\<close>. An object is an association list read with \<open>map_of\<close>.
  Numbers are carried as integers: the program only tests them for truthiness and
  converts them to text. A text is a list of bytes (UTF-8); the program compares texts,
  concatenates them, tests them for emptiness, looks for the ASCII text \<^verbatim>\<open>timeout\<close> and
  splits at the space, all of which read the same on bytes as on UTF-16 code units.
\<close>

datatype json =
    JUndefined
  | JNull
  | JBool bool
  | JNum int
  | JStr string
  | JArr "json list"
  | JObj "(string \<times> json) list"

text \<open>
  A thrown value: an instance of \<^verbatim>\<open>Error\<close> with its message, or anything else.
\<close>

datatype thrown = ErrorObj string | NonError

text \<open>
  The \<^verbatim>\<open>TypeError\<close> the runtime raises on a property read of \<^verbatim>\<open>null\<close> or
  \<^verbatim>\<open>undefined\<close>, on a call of a non-function and on iteration of a non-iterable.
  Its message is the engine's; the model fixes one text for all of them.
\<close>

definition typeError :: thrown where
  "typeError = ErrorObj ''TypeError''"

text \<open>\<^verbatim>\<open>!!v\<close>: JavaScript truthiness.\<close>

fun truthy :: "json \<Rightarrow> bool" where
  "truthy JUndefined = False"
| "truthy JNull = False"
| "truthy (JBool b) = b"
| "truthy (JNum n) = (n \<noteq> 0)"
| "truthy (JStr s) = (s \<noteq> [])"
| "truthy (JArr xs) = True"
| "truthy (JObj kvs) = True"

text \<open>\<^verbatim>\<open>typeof v === "object"\<close> holds of objects, arrays and \<^verbatim>\<open>null\<close>.\<close>

fun typeofObject :: "json \<Rightarrow> bool" where
  "typeofObject JNull = True"
| "typeofObject (JArr xs) = True"
| "typeofObject (JObj kvs) = True"
| "typeofObject v = False"

fun typeofString :: "json \<Rightarrow> bool" where
  "typeofString (JStr s) = True"
| "typeofString v = False"

fun isArray :: "json \<Rightarrow> bool" where
  "isArray (JArr xs) = True"
| "isArray v = False"

fun nullish :: "json \<Rightarrow> bool" where
  "nullish JUndefined = True"
| "nullish JNull = True"
| "nullish v = False"

text \<open>\<^verbatim>\<open>v ?? d\<close>\<close>

fun coalesce :: "json \<Rightarrow> json \<Rightarrow> json" where
  "coalesce v d = (if nullish v then d else v)"

text \<open>
  \<^verbatim>\<open>v.k\<close> where the program has already checked that \<open>v\<close> is not \<^verbatim>\<open>null\<close> or
  \<^verbatim>\<open>undefined\<close>. None of the property names the program reads (\<^verbatim>\<open>role\<close>,
  \<^verbatim>\<open>content\<close>, \<^verbatim>\<open>type\<close>, \<^verbatim>\<open>text\<close>, \<^verbatim>\<open>parts\<close>, \<^verbatim>\<open>model\<close>, ...) is a property of
  arrays, strings, numbers or booleans, so the read gives \<^verbatim>\<open>undefined\<close> there.
\<close>

fun dot :: "json \<Rightarrow> string \<Rightarrow> json" where
  "dot (JObj kvs) k = (case map_of kvs k of Some v \<Rightarrow> v | None \<Rightarrow> JUndefined)"
| "dot v k = JUndefined"

text \<open>\<^verbatim>\<open>v.k\<close> unguarded: a \<^verbatim>\<open>TypeError\<close> on \<^verbatim>\<open>null\<close> and \<^verbatim>\<open>undefined\<close>.\<close>

fun dotE :: "json \<Rightarrow> string \<Rightarrow> thrown + json" where
  "dotE v k = (if nullish v then Inl typeError else Inr (dot v k))"

text \<open>The elements of an array.\<close>

fun elems :: "json \<Rightarrow> json list" where
  "elems (JArr xs) = xs"
| "elems v = []"

text \<open>
  \<^verbatim>\<open>for (const x of v)\<close>: an array yields its elements and a string its characters
  (each a one-character string); every other value reaching one of the program's loops
  is not iterable.
\<close>

fun iterate :: "json \<Rightarrow> thrown + json list" where
  "iterate (JArr xs) = Inr xs"
| "iterate (JStr s) = Inr (map (\<lambda>c. JStr [c]) s)"
| "iterate v = Inl typeError"

section \<open>Request normalizer: \<^verbatim>\<open>fromOaRequest\<close>\<close>

text \<open>
  One round of the inner loop over \<^verbatim>\<open>m.content\<close> (source lines 25 to 29): the parts it
  pushes. The two \<^verbatim>\<open>if\<close>s are separate statements, as in the source.
\<close>

fun pushPart :: "json \<Rightarrow> json list \<Rightarrow> json list" where
  "pushPart p parts =
     (if \<not> truthy p then parts
      else if \<not> truthy (dot p ''type'') then parts
      else
        (let parts1 =
               (if dot p ''type'' = JStr ''text'' \<and> typeofString (dot p ''text'')
                then parts @ [JObj [(''type'', JStr ''text''), (''text'', dot p ''text'')]]
                else parts)
         in if dot p ''type'' = JStr ''image_url''
            then parts1 @ [JObj [(''type'', JStr ''image_url''),
                                 (''image_url'', dot p ''image_url'')]]
            else parts1))"

fun contentParts :: "json list \<Rightarrow> json list \<Rightarrow> json list" where
  "contentParts [] parts = parts"
| "contentParts (p # ps) parts = contentParts ps (pushPart p parts)"

text \<open>One round of the loop over \<^verbatim>\<open>msgsIn\<close> (source lines 15 to 46).\<close>

fun pushMessage :: "json \<Rightarrow> json list \<Rightarrow> json list" where
  "pushMessage m msgsOut =
     (if \<not> truthy m then msgsOut
      else if \<not> truthy (dot m ''role'') then msgsOut
      else if dot m ''role'' = JStr ''system'' then
        (if typeofString (dot m ''content'') \<and> dot m ''content'' \<noteq> JStr []
         then msgsOut @ [JObj [(''role'', JStr ''system''), (''content'', dot m ''content'')]]
         else msgsOut)
      else if dot m ''role'' = JStr ''user'' then
        (if typeofString (dot m ''content'')
         then msgsOut @ [JObj [(''role'', JStr ''user''), (''content'', dot m ''content'')]]
         else if isArray (dot m ''content'') then
           (let parts = contentParts (elems (dot m ''content'')) []
            in if length parts = 1 \<and> dot (parts ! 0) ''type'' = JStr ''text''
               then msgsOut @ [JObj [(''role'', JStr ''user''),
                                     (''content'', dot (parts ! 0) ''text'')]]
               else if length parts > 0
               then msgsOut @ [JObj [(''role'', JStr ''user''), (''content'', JArr parts)]]
               else msgsOut)
         else msgsOut)
      else if dot m ''role'' = JStr ''assistant'' then
        (let out0 = [(''role'', JStr ''assistant'')];
             out1 = (if typeofString (dot m ''content'')
                     then out0 @ [(''content'', dot m ''content'')] else out0);
             out2 = (if isArray (dot m ''tool_calls'')
                     then out1 @ [(''tool_calls'', dot m ''tool_calls'')] else out1)
         in msgsOut @ [JObj out2])
      else if dot m ''role'' = JStr ''tool'' then
        msgsOut @ [JObj [(''role'', JStr ''tool''),
                         (''tool_call_id'', dot m ''tool_call_id''),
                         (''content'', dot m ''content'')]]
      else msgsOut)"

fun normalizeMessages :: "json list \<Rightarrow> json list \<Rightarrow> json list" where
  "normalizeMessages [] msgsOut = msgsOut"
| "normalizeMessages (m # ms) msgsOut = normalizeMessages ms (pushMessage m msgsOut)"

fun fromOaRequest :: "json \<Rightarrow> json" where
  "fromOaRequest body =
     (if \<not> truthy body then body
      else if \<not> typeofObject body then body
      else
        (let msgsIn = (if isArray (dot body ''messages'')
                       then elems (dot body ''messages'') else []);
             msgsOut = normalizeMessages msgsIn []
         in JObj [(''model'', dot body ''model''),
                  (''max_tokens'', dot body ''max_tokens''),
                  (''temperature'', dot body ''temperature''),
                  (''top_p'', dot body ''top_p''),
                  (''stop'', dot body ''stop''),
                  (''messages'', JArr msgsOut),
                  (''stream'', JBool (truthy (dot body ''stream''))),
                  (''tools'', if isArray (dot body ''tools'')
                              then dot body ''tools'' else JUndefined),
                  (''tool_choice'', dot body ''tool_choice'')]))"


section \<open>Text conversion: \<^verbatim>\<open>Array.prototype.join\<close>, \<^verbatim>\<open>String.prototype.includes\<close>, \<^verbatim>\<open>split\<close>\<close>

fun digitChar :: "nat \<Rightarrow> char" where
  "digitChar n = char_of (48 + n)"

fun showNat :: "nat \<Rightarrow> string" where
  "showNat n = (if n < 10 then [digitChar n] else showNat (n div 10) @ [digitChar (n mod 10)])"

declare showNat.simps [simp del]

fun showInt :: "int \<Rightarrow> string" where
  "showInt i = (if i < 0 then CHR ''-'' # showNat (nat (- i)) else showNat (nat i))"

fun joinWith :: "string \<Rightarrow> string list \<Rightarrow> string" where
  "joinWith sep [] = []"
| "joinWith sep [x] = x"
| "joinWith sep (x # y # ys) = x @ sep @ joinWith sep (y # ys)"

text \<open>
  \<^verbatim>\<open>String(v)\<close>. An array is its elements joined with a comma, \<^verbatim>\<open>null\<close> and
  \<^verbatim>\<open>undefined\<close> elements giving the empty text. \<open>JNum n\<close> stands for a number that is
  an integer of magnitude below \<open>10^21\<close>, which JavaScript writes as its plain digits;
  numbers with a fraction or beyond that range are not represented.
\<close>

fun toStringJS :: "json \<Rightarrow> string" where
  "toStringJS JUndefined = ''undefined''"
| "toStringJS JNull = ''null''"
| "toStringJS (JBool b) = (if b then ''true'' else ''false'')"
| "toStringJS (JNum n) = showInt n"
| "toStringJS (JStr s) = s"
| "toStringJS (JArr xs) = joinWith '','' (map (\<lambda>x. if nullish x then [] else toStringJS x) xs)"
| "toStringJS (JObj kvs) = ''[object Object]''"

text \<open>\<^verbatim>\<open>xs.join(sep)\<close>\<close>

fun arrayJoin :: "string \<Rightarrow> json list \<Rightarrow> string" where
  "arrayJoin sep xs = joinWith sep (map (\<lambda>x. if nullish x then [] else toStringJS x) xs)"

fun startsWith :: "string \<Rightarrow> string \<Rightarrow> bool" where
  "startsWith s [] = True"
| "startsWith [] (c # cs) = False"
| "startsWith (d # ds) (c # cs) = (d = c \<and> startsWith ds cs)"

text \<open>\<^verbatim>\<open>s.includes(needle)\<close>\<close>

fun includesStr :: "string \<Rightarrow> string \<Rightarrow> bool" where
  "includesStr [] needle = (needle = [])"
| "includesStr (c # cs) needle = (startsWith (c # cs) needle \<or> includesStr cs needle)"

text \<open>\<^verbatim>\<open>s.split(d)\<close> for a separator of one character.\<close>

fun splitOn :: "char \<Rightarrow> string \<Rightarrow> string list" where
  "splitOn d [] = [[]]"
| "splitOn d (c # cs) =
     (if c = d then [] # splitOn d cs
      else (case splitOn d cs of [] \<Rightarrow> [[c]] | w # ws \<Rightarrow> (c # w) # ws))"

section \<open>Response translation: \<^verbatim>\<open>toOaResponse\<close>, \<^verbatim>\<open>toOaStreamChunk\<close>\<close>

text \<open>
  \<^verbatim>\<open>parts.filter((p) => p.type === "text")\<close>: the callback reads \<^verbatim>\<open>p.type\<close> and throws
  on a part that is \<^verbatim>\<open>null\<close> or \<^verbatim>\<open>undefined\<close>.
\<close>

fun filterTypeText :: "json list \<Rightarrow> thrown + json list" where
  "filterTypeText [] = Inr []"
| "filterTypeText (p # ps) =
     (case dotE p ''type'' of
        Inl e \<Rightarrow> Inl e
      | Inr t \<Rightarrow>
          (case filterTypeText ps of
             Inl e \<Rightarrow> Inl e
           | Inr kept \<Rightarrow> Inr (if t = JStr ''text'' then p # kept else kept)))"

text \<open>
  \<^verbatim>\<open>parts.filter(...).map((p) => p.text ?? "").join("")\<close>, the expression of source lines
  63 to 66 and again of lines 215 to 218.
\<close>

fun textOfParts :: "json list \<Rightarrow> thrown + string" where
  "textOfParts parts =
     (case filterTypeText parts of
        Inl e \<Rightarrow> Inl e
      | Inr kept \<Rightarrow> Inr (arrayJoin [] (map (\<lambda>p. coalesce (dot p ''text'') (JStr [])) kept)))"

text \<open>
  \<open>rnd\<close> is the text of \<^verbatim>\<open>Math.random().toString(36).slice(2)\<close> and \<open>nowMs\<close> the value of
  \<^verbatim>\<open>Date.now()\<close> at the call.
\<close>

fun toOaResponse :: "string \<Rightarrow> int \<Rightarrow> json \<Rightarrow> thrown + json" where
  "toOaResponse rnd nowMs resp =
     (if \<not> truthy resp then Inr resp
      else if \<not> typeofObject resp then Inr resp
      else
        (case textOfParts (if isArray (dot resp ''parts'') then elems (dot resp ''parts'') else [])
         of Inl e \<Rightarrow> Inl e
          | Inr text \<Rightarrow>
              Inr (JObj [(''id'', JStr (''chatcmpl_'' @ rnd)),
                         (''object'', JStr ''chat.completion''),
                         (''created'', JNum (nowMs div 1000)),
                         (''model'', coalesce (dot resp ''model'') (JStr ''opencode'')),
                         (''choices'',
                            JArr [JObj [(''index'', JNum 0),
                                        (''message'', JObj [(''role'', JStr ''assistant''),
                                                            (''content'', JStr text)]),
                                        (''finish_reason'', JStr ''stop'')]])])))"

fun toOaStreamChunk :: "string \<Rightarrow> int \<Rightarrow> json \<Rightarrow> json \<Rightarrow> json" where
  "toOaStreamChunk rnd nowMs partial model =
     JObj [(''id'', JStr (''chatcmpl_'' @ rnd)),
           (''object'', JStr ''chat.completion.chunk''),
           (''created'', JNum (nowMs div 1000)),
           (''model'', coalesce model (JStr ''opencode'')),
           (''choices'',
              JArr [JObj [(''index'', JNum 0),
                          (''delta'', JObj [(''content'', partial)]),
                          (''finish_reason'', JNull)]])]"

section \<open>Authentication gate and error envelope\<close>

text \<open>
  An absent header or key (\<^verbatim>\<open>undefined\<close>) is \<open>None\<close>; \<^verbatim>\<open>!apiKey\<close> also holds of the
  empty string.
\<close>

fun validateApiKey :: "string option \<Rightarrow> string option \<Rightarrow> bool" where
  "validateApiKey authHeader None = True"
| "validateApiKey authHeader (Some []) = True"
| "validateApiKey None (Some (k # ks)) = False"
| "validateApiKey (Some []) (Some (k # ks)) = False"
| "validateApiKey (Some (h # hs)) (Some (k # ks)) =
     (let parts = splitOn CHR '' '' (h # hs)
      in if length parts \<noteq> 2 \<or> parts ! 0 \<noteq> ''Bearer'' then False else parts ! 1 = k # ks)"

fun createErrorResponse :: "nat \<Rightarrow> string \<Rightarrow> string \<Rightarrow> json" where
  "createErrorResponse statusCode message type =
     JObj [(''error'', JObj [(''message'', JStr message),
                             (''type'', JStr type),
                             (''param'', JNull),
                             (''code'', JNull)])]"

text \<open>
  One write to a response stream; and a response: \<^verbatim>\<open>c.json(body, status)\<close>, or the text
  response of the framework's error handler.
\<close>

datatype sse_write =
    WData json  \<comment> \<open>\<^verbatim>\<open>stream.write(`data: ${JSON.stringify(v)}\n\n`)\<close>\<close>
  | WDone       \<comment> \<open>\<^verbatim>\<open>stream.write("data: [DONE]\n\n")\<close>\<close>

datatype http_response =
    JsonResponse nat json
  | TextResponse nat string

text \<open>The text of a write, given the runtime's \<^verbatim>\<open>JSON.stringify\<close>.\<close>

fun wireText :: "(json \<Rightarrow> string) \<Rightarrow> sse_write \<Rightarrow> string" where
  "wireText stringify (WData v) = ''data: '' @ stringify v @ [CHR 0x0A, CHR 0x0A]"
| "wireText stringify WDone = ''data: [DONE]'' @ [CHR 0x0A, CHR 0x0A]"

text \<open>
  The request object of the framework (Hono) holds the path as a string property,
  \<^verbatim>\<open>c.req.path\<close>. The expression \<^verbatim>\<open>c.req.path()\<close> of source line 137 calls that string:
  it throws a \<^verbatim>\<open>TypeError\<close>, whatever the path is.
\<close>

fun reqPathCall :: "string \<Rightarrow> thrown + string" where
  "reqPathCall path = Inl typeError"

text \<open>
  The middleware of source lines 135 to 149: \<open>Inr None\<close> is \<^verbatim>\<open>next()\<close>, the request goes
  on to its route; \<open>Inl\<close> is a throw, which nothing in the middleware catches.
\<close>

fun authMiddleware ::
  "string option \<Rightarrow> string \<Rightarrow> string option \<Rightarrow> thrown + http_response option" where
  "authMiddleware apiKey path authHeader =
     (case reqPathCall path of
        Inl e \<Rightarrow> Inl e
      | Inr p \<Rightarrow>
          if p = ''/openapi.json'' then Inr None
          else if \<not> validateApiKey authHeader apiKey
          then Inr (Some (JsonResponse 401
                            (createErrorResponse 401 ''Unauthorized'' ''authentication_error'')))
          else Inr None)"

text \<open>
  The framework answers an error that no handler catches with its default error handler:
  status 500 and the text \<^verbatim>\<open>Internal Server Error\<close>.
\<close>

fun errorHandler :: "thrown \<Rightarrow> http_response" where
  "errorHandler e = TextResponse 500 ''Internal Server Error''"

text \<open>
  \<^verbatim>\<open>app.use\<close> of the middleware: the response the application gives at this stage, \<open>None\<close>
  when the request goes on to its route.
\<close>

fun appUse :: "string option \<Rightarrow> string \<Rightarrow> string option \<Rightarrow> http_response option" where
  "appUse apiKey path authHeader =
     (case authMiddleware apiKey path authHeader of
        Inl e \<Rightarrow> Some (errorHandler e)
      | Inr response \<Rightarrow> response)"


section \<open>The backend client and the route \<^verbatim>\<open>POST /v1/chat/completions\<close>\<close>

text \<open>
  What \<^verbatim>\<open>await client.session.message(...)\<close> gives: a rejection, a single reply, or an
  async iterable. The iterable is a finite list of chunks that then ends normally
  (\<open>None\<close>) or rejects (\<open>Some e\<close>).
\<close>

datatype backend_result =
    Throws thrown
  | Reply json
  | ChunkSeq "json list" "thrown option"

record client =
  session_create :: "thrown + json"
  session_message :: "json \<Rightarrow> json \<Rightarrow> backend_result"

text \<open>
  The runtime's \<^verbatim>\<open>Math.random\<close> and \<^verbatim>\<open>Date.now\<close>: the values at the \<open>k\<close>-th translation
  call of the request.
\<close>

record env =
  randomToken :: "nat \<Rightarrow> string"
  clockMs :: "nat \<Rightarrow> int"

text \<open>\<^verbatim>\<open>error instanceof Error ? error.message : d\<close>\<close>

fun messageOr :: "thrown \<Rightarrow> string \<Rightarrow> string" where
  "messageOr (ErrorObj message) d = message"
| "messageOr NonError d = d"

text \<open>
  The projection of the normalized messages to backend parts (source lines 178 to 188 and
  again 253 to 263).
\<close>

fun pushTextParts :: "json list \<Rightarrow> json list \<Rightarrow> thrown + json list" where
  "pushTextParts [] messageParts = Inr messageParts"
| "pushTextParts (p # ps) messageParts =
     (case dotE p ''type'' of
        Inl e \<Rightarrow> Inl e
      | Inr t \<Rightarrow>
          pushTextParts ps
            (if t = JStr ''text''
             then messageParts @ [JObj [(''type'', JStr ''text''), (''text'', dot p ''text'')]]
             else messageParts))"

fun messagePartsLoop :: "json list \<Rightarrow> json list \<Rightarrow> thrown + json list" where
  "messagePartsLoop [] messageParts = Inr messageParts"
| "messagePartsLoop (m # ms) messageParts =
     (case dotE m ''role'' of
        Inl e \<Rightarrow> Inl e
      | Inr r \<Rightarrow>
          if r = JStr ''user'' then
            (if typeofString (dot m ''content'')
             then messagePartsLoop ms
                    (messageParts @ [JObj [(''type'', JStr ''text''), (''text'', dot m ''content'')]])
             else if isArray (dot m ''content'')
             then (case pushTextParts (elems (dot m ''content'')) messageParts of
                     Inl e \<Rightarrow> Inl e
                   | Inr messageParts' \<Rightarrow> messagePartsLoop ms messageParts')
             else messagePartsLoop ms messageParts)
          else messagePartsLoop ms messageParts)"

fun buildMessageParts :: "json \<Rightarrow> thrown + json list" where
  "buildMessageParts parsed =
     (case dotE parsed ''messages'' of
        Inl e \<Rightarrow> Inl e
      | Inr messages \<Rightarrow>
          (case iterate (coalesce messages (JArr [])) of
             Inl e \<Rightarrow> Inl e
           | Inr ms \<Rightarrow> messagePartsLoop ms []))"

subsection \<open>Streaming path\<close>

text \<open>
  The state of the open response stream: the writes so far, and how many times
  \<^verbatim>\<open>toOaStreamChunk\<close> has been called. A loop that throws leaves what it wrote.
\<close>

record stream_state =
  written :: "sse_write list"
  calls :: nat

fun writeChunk :: "env \<Rightarrow> json \<Rightarrow> json \<Rightarrow> stream_state \<Rightarrow> stream_state" where
  "writeChunk env model partial st =
     \<lparr>written = written st @
        [WData (toOaStreamChunk (randomToken env (calls st)) (clockMs env (calls st)) partial model)],
      calls = Suc (calls st)\<rparr>"

text \<open>Source lines 204 to 209.\<close>

fun partsLoop :: "env \<Rightarrow> json \<Rightarrow> json list \<Rightarrow> stream_state \<Rightarrow> thrown option \<times> stream_state" where
  "partsLoop env model [] st = (None, st)"
| "partsLoop env model (part # rest) st =
     (case dotE part ''type'' of
        Inl e \<Rightarrow> (Some e, st)
      | Inr t \<Rightarrow>
          if t = JStr ''text'' \<and> truthy (dot part ''text'')
          then partsLoop env model rest (writeChunk env model (dot part ''text'') st)
          else partsLoop env model rest st)"

text \<open>Source lines 202 to 211; \<open>fail\<close> is how the iterable ends.\<close>

fun chunkLoop ::
  "env \<Rightarrow> json \<Rightarrow> json list \<Rightarrow> thrown option \<Rightarrow> stream_state \<Rightarrow> thrown option \<times> stream_state" where
  "chunkLoop env model [] fail st = (fail, st)"
| "chunkLoop env model (chunk # rest) fail st =
     (if truthy chunk \<and> truthy (dot chunk ''parts'') then
        (case iterate (dot chunk ''parts'') of
           Inl e \<Rightarrow> (Some e, st)
         | Inr parts \<Rightarrow>
             (case partsLoop env model parts st of
                (Some e, st') \<Rightarrow> (Some e, st')
              | (None, st') \<Rightarrow> chunkLoop env model rest fail st'))
      else chunkLoop env model rest fail st)"

text \<open>
  Source lines 213 to 222, the reply that is not an async iterable. \<^verbatim>\<open>parts.filter\<close> is
  not a function unless \<open>parts\<close> is an array.
\<close>

fun fallbackReply :: "env \<Rightarrow> json \<Rightarrow> json \<Rightarrow> stream_state \<Rightarrow> thrown option \<times> stream_state" where
  "fallbackReply env model msg st =
     (let parts = (if truthy msg \<and> truthy (dot msg ''parts'') then dot msg ''parts'' else JArr [])
      in if isArray parts then
           (case textOfParts (elems parts) of
              Inl e \<Rightarrow> (Some e, st)
            | Inr text \<Rightarrow>
                if text \<noteq> [] then (None, writeChunk env model (JStr text) st) else (None, st))
         else (Some typeError, st))"

text \<open>The \<^verbatim>\<open>try\<close> block of source lines 173 to 229.\<close>

fun streamTry :: "env \<Rightarrow> client \<Rightarrow> json \<Rightarrow> stream_state \<Rightarrow> thrown option \<times> stream_state" where
  "streamTry env client parsed st =
     (case session_create client of
        Inl e \<Rightarrow> (Some e, st)
      | Inr session \<Rightarrow>
          (case buildMessageParts parsed of
             Inl e \<Rightarrow> (Some e, st)
           | Inr messageParts \<Rightarrow>
               (case dotE session ''id'' of
                  Inl e \<Rightarrow> (Some e, st)
                | Inr sid \<Rightarrow>
                    (case (case session_message client sid
                                  (JObj [(''parts'', JArr messageParts), (''stream'', JBool True)]) of
                             Throws e \<Rightarrow> (Some e, st)
                           | ChunkSeq chunks fail \<Rightarrow>
                               chunkLoop env (coalesce (dot parsed ''model'') (JStr ''opencode''))
                                 chunks fail st
                           | Reply msg \<Rightarrow>
                               fallbackReply env (coalesce (dot parsed ''model'') (JStr ''opencode''))
                                 msg st) of
                       (Some e, st') \<Rightarrow> (Some e, st')
                     | (None, st') \<Rightarrow> (None, st'\<lparr>written := written st' @ [WDone]\<rparr>)))))"

text \<open>
  The callback handed to \<^verbatim>\<open>c.streaming\<close> (source lines 172 to 246), with its \<^verbatim>\<open>catch\<close>:
  the writes it makes to the stream it is given, when it is run.
\<close>

fun streamingBody :: "env \<Rightarrow> client \<Rightarrow> json \<Rightarrow> sse_write list" where
  "streamingBody env client parsed =
     (case streamTry env client parsed \<lparr>written = [], calls = 0\<rparr> of
        (None, st) \<Rightarrow> written st
      | (Some error, st) \<Rightarrow>
          (let errorMsg = messageOr error ''Unknown error occurred'';
               errorData =
                 JObj [(''error'',
                    JObj [(''message'', JStr (if includesStr errorMsg ''timeout''
                                              then ''provider timeout'' else errorMsg)),
                          (''type'', JStr (if includesStr errorMsg ''timeout''
                                           then ''provider_error'' else ''server_error''))])]
           in written st @ [WData errorData, WDone]))"

subsection \<open>Non-streaming path\<close>

text \<open>
  The \<^verbatim>\<open>try\<close> block of source lines 269 to 272. An async iterable handed to
  \<^verbatim>\<open>toOaResponse\<close> is an object with neither \<^verbatim>\<open>parts\<close> nor \<^verbatim>\<open>model\<close>.
\<close>

fun nonStreamingTry :: "env \<Rightarrow> client \<Rightarrow> json \<Rightarrow> json list \<Rightarrow> thrown + json" where
  "nonStreamingTry env client session messageParts =
     (case dotE session ''id'' of
        Inl e \<Rightarrow> Inl e
      | Inr sid \<Rightarrow>
          (case session_message client sid (JObj [(''parts'', JArr messageParts)]) of
             Throws e \<Rightarrow> Inl e
           | Reply msg \<Rightarrow> toOaResponse (randomToken env 0) (clockMs env 0) msg
           | ChunkSeq chunks fail \<Rightarrow> toOaResponse (randomToken env 0) (clockMs env 0) (JObj [])))"

text \<open>
  Source lines 269 to 285: the \<^verbatim>\<open>try\<close> block with its \<^verbatim>\<open>catch\<close>, giving the response.
\<close>

fun nonStreamingResponse :: "env \<Rightarrow> client \<Rightarrow> json \<Rightarrow> json list \<Rightarrow> http_response" where
  "nonStreamingResponse env client session messageParts =
     (case nonStreamingTry env client session messageParts of
        Inr resp \<Rightarrow> JsonResponse 200 resp
      | Inl error \<Rightarrow>
          (let errorMsg = messageOr error ''Unknown error occurred'';
               statusCode = (if includesStr errorMsg ''timeout'' then 504 else 500);
               errorType = (if includesStr errorMsg ''timeout''
                            then ''provider_error'' else ''server_error'')
           in JsonResponse statusCode (createErrorResponse statusCode errorMsg errorType)))"

text \<open>
  Source lines 248 to 286. \<open>Inl\<close> is a throw outside the inner \<^verbatim>\<open>try\<close>, which the outer
  \<^verbatim>\<open>catch\<close> of the route receives.
\<close>

fun nonStreaming :: "env \<Rightarrow> client \<Rightarrow> json \<Rightarrow> thrown + http_response" where
  "nonStreaming env client parsed =
     (case session_create client of
        Inl e \<Rightarrow> Inl e
      | Inr session \<Rightarrow>
          (case buildMessageParts parsed of
             Inl e \<Rightarrow> Inl e
           | Inr messageParts \<Rightarrow> Inr (nonStreamingResponse env client session messageParts)))"

text \<open>
  The same lines with the clock. The timer armed at line 267 calls
  \<^verbatim>\<open>abortController.abort()\<close> after \<open>timeoutMs\<close> unless line 284 clears it first. The
  controller's signal is handed to no call: \<^verbatim>\<open>client.session.message\<close> receives the
  session id and the parts only. So the awaited promise settles when the backend settles
  it, \<open>settleMs\<close> after the timer is armed (\<open>None\<close>: never), and the handler has no
  response before. The result is the time of the response, whether \<^verbatim>\<open>abort()\<close> had run
  by then, and the response; \<open>None\<close> when there is never a response.
\<close>

fun nonStreamingTimed ::
  "nat \<Rightarrow> nat option \<Rightarrow> env \<Rightarrow> client \<Rightarrow> json \<Rightarrow> json list \<Rightarrow> (nat \<times> bool \<times> http_response) option" where
  "nonStreamingTimed timeoutMs settleMs env client session messageParts =
     (if nullish session
      then Some (0, False, nonStreamingResponse env client session messageParts)
      else (case settleMs of
              None \<Rightarrow> None
            | Some t \<Rightarrow>
                Some (t, timeoutMs < t, nonStreamingResponse env client session messageParts)))"

subsection \<open>The route handler\<close>

text \<open>
  The context of the framework has no method \<^verbatim>\<open>streaming\<close>: \<^verbatim>\<open>c.streaming\<close> is
  \<^verbatim>\<open>undefined\<close>, and the call of source line 172 throws a \<^verbatim>\<open>TypeError\<close> before the
  callback it is handed, whose writes would be \<open>callbackWrites\<close>, is run.
\<close>

fun contextStreaming :: "sse_write list \<Rightarrow> thrown + http_response" where
  "contextStreaming callbackWrites = Inl typeError"

text \<open>
  \<open>requestBody\<close> is the request body as \<^verbatim>\<open>c.req.json()\<close> parses it, \<open>None\<close> when it is
  not valid JSON: the rejection is caught and replaced by the empty object (source line
  166).
\<close>

fun chatCompletions :: "env \<Rightarrow> client \<Rightarrow> json option \<Rightarrow> http_response" where
  "chatCompletions env client requestBody =
     (let body = (case requestBody of None \<Rightarrow> JObj [] | Some b \<Rightarrow> b);
          parsed = fromOaRequest body
      in case (case dotE parsed ''stream'' of
                 Inl e \<Rightarrow> Inl e
               | Inr isStreaming \<Rightarrow>
                   if truthy isStreaming
                   then contextStreaming (streamingBody env client parsed)
                   else nonStreaming env client parsed) of
           Inr response \<Rightarrow> response
         | Inl error \<Rightarrow>
             JsonResponse 400
               (createErrorResponse 400 (messageOr error ''Invalid request'')
                  ''invalid_request_error''))"


section \<open>Notions used to state the properties\<close>

text \<open>
  A well-formed content part, in the words of the description of the normalizer: an
  object with type \<^verbatim>\<open>"text"\<close> and a string \<^verbatim>\<open>text\<close> field, or with type
  \<^verbatim>\<open>"image_url"\<close>. (A value with a \<^verbatim>\<open>type\<close> field is an object.)
\<close>

fun wellFormedPart :: "json \<Rightarrow> bool" where
  "wellFormedPart p =
     ((dot p ''type'' = JStr ''text'' \<and> typeofString (dot p ''text'')) \<or>
      dot p ''type'' = JStr ''image_url'')"

text \<open>The part the normalizer rebuilds from a well-formed part.\<close>

fun rebuiltPart :: "json \<Rightarrow> json" where
  "rebuiltPart p =
     (if dot p ''type'' = JStr ''text''
      then JObj [(''type'', JStr ''text''), (''text'', dot p ''text'')]
      else JObj [(''type'', JStr ''image_url''), (''image_url'', dot p ''image_url'')])"

text \<open>
  What a client observes of a response: the HTTP status and \<^verbatim>\<open>error.type\<close> of a JSON
  body.
\<close>

fun statusOf :: "http_response \<Rightarrow> nat" where
  "statusOf (JsonResponse status body) = status"
| "statusOf (TextResponse status body) = status"

fun errorTypeOf :: "http_response \<Rightarrow> json" where
  "errorTypeOf (JsonResponse status body) = dot (dot body ''error'') ''type''"
| "errorTypeOf (TextResponse status body) = JUndefined"

text \<open>
  The text a part contributes to \<^verbatim>\<open>join("")\<close>: its \<^verbatim>\<open>text\<close> field, nothing when the
  field is absent.
\<close>

fun partText :: "json \<Rightarrow> string" where
  "partText p = (if nullish (dot p ''text'') then [] else toStringJS (dot p ''text''))"

fun isTextPart :: "json \<Rightarrow> bool" where
  "isTextPart p = (dot p ''type'' = JStr ''text'')"

text \<open>
  A part that makes the stream translator emit a frame: type \<^verbatim>\<open>"text"\<close> and a truthy
  \<^verbatim>\<open>text\<close>, which for a string means non-empty; an absent \<^verbatim>\<open>text\<close> is \<^verbatim>\<open>undefined\<close>.
\<close>

fun emitsFrame :: "json \<Rightarrow> bool" where
  "emitsFrame p = (dot p ''type'' = JStr ''text'' \<and> truthy (dot p ''text''))"

text \<open>The parts of a chunk that the translator visits.\<close>

fun chunkParts :: "json \<Rightarrow> json list" where
  "chunkParts chunk =
     (if truthy chunk \<and> truthy (dot chunk ''parts'') then elems (dot chunk ''parts'') else [])"

text \<open>Kinds of writes: a \<^verbatim>\<open>chat.completion.chunk\<close> frame; an error frame with message and type.\<close>

fun isChunkFrame :: "sse_write \<Rightarrow> bool" where
  "isChunkFrame (WData v) =
     (dot v ''object'' = JStr ''chat.completion.chunk'' \<and> dot v ''error'' = JUndefined)"
| "isChunkFrame WDone = False"

fun isErrorFrame :: "sse_write \<Rightarrow> bool" where
  "isErrorFrame (WData v) =
     (typeofString (dot (dot v ''error'') ''message'') \<and> typeofString (dot (dot v ''error'') ''type''))"
| "isErrorFrame WDone = False"

fun deltaContent :: "sse_write \<Rightarrow> json" where
  "deltaContent (WData v) =
     (case elems (dot v ''choices'') of
        [] \<Rightarrow> JUndefined
      | choice # rest \<Rightarrow> dot (dot choice ''delta'') ''content'')"
| "deltaContent WDone = JUndefined"

text \<open>
  A chunk the translator can walk: its \<^verbatim>\<open>parts\<close>, when present, is an array of objects.
\<close>

fun wellFormedChunk :: "json \<Rightarrow> bool" where
  "wellFormedChunk chunk =
     ((isArray (dot chunk ''parts'') \<or> \<not> (truthy chunk \<and> truthy (dot chunk ''parts''))) \<and>
      list_all (\<lambda>p. \<not> nullish p) (chunkParts chunk))"

text \<open>
  One frame per part, each carrying the part's \<^verbatim>\<open>text\<close> as its \<^verbatim>\<open>delta.content\<close>; the
  first frame is made by translation call number \<open>k\<close> of the request.
\<close>

fun framesFrom :: "env \<Rightarrow> json \<Rightarrow> nat \<Rightarrow> json list \<Rightarrow> sse_write list" where
  "framesFrom env model k [] = []"
| "framesFrom env model k (p # ps) =
     WData (toOaStreamChunk (randomToken env k) (clockMs env k) (dot p ''text'') model)
       # framesFrom env model (Suc k) ps"

subsection \<open>Example collaborators\<close>

text \<open>
  The client the command \<^verbatim>\<open>server-openai\<close> hands to the plugin (the CLI handler's
  \<^verbatim>\<open>mockClient\<close>): every message call answers with one fixed reply.
\<close>

definition mockClient :: client where
  "mockClient =
     \<lparr>session_create = Inr (JObj [(''id'', JStr ''mock-session'')]),
      session_message = (\<lambda>sessionId body.
        Reply (JObj [(''parts'', JArr [JObj [(''type'', JStr ''text''),
                                            (''text'', JStr ''Hello from OpenCode!'')]]),
                     (''model'', coalesce (dot body ''model'') (JStr ''opencode/default''))]))\<rparr>"

text \<open>A client whose message call always settles the same way.\<close>

definition constClient :: "backend_result \<Rightarrow> client" where
  "constClient r =
     \<lparr>session_create = Inr (JObj [(''id'', JStr ''ses_1'')]),
      session_message = (\<lambda>sessionId body. r)\<rparr>"

definition fixedEnv :: env where
  "fixedEnv = \<lparr>randomToken = (\<lambda>k. ''k3x9''), clockMs = (\<lambda>k. 1700000000123)\<rparr>"

section \<open>Properties of the request normalizer\<close>

declare pushMessage.simps [simp del] pushPart.simps [simp del] fromOaRequest.simps [simp del]

lemma dot_truthy: "truthy (dot p k) \<Longrightarrow> truthy p"
  by (cases p) auto

lemma pushPart_eq:
  "pushPart p parts = parts @ (if wellFormedPart p then [rebuiltPart p] else [])"
  by (cases p) (auto simp: pushPart.simps Let_def)

lemma contentParts_eq:
  "contentParts ps parts = parts @ map rebuiltPart (filter wellFormedPart ps)"
  by (induction ps arbitrary: parts) (simp_all add: pushPart_eq del: wellFormedPart.simps rebuiltPart.simps)

lemma pushMessage_append: "pushMessage m msgsOut = msgsOut @ pushMessage m []"
  by (simp add: pushMessage.simps Let_def)

lemma normalizeMessages_eq:
  "normalizeMessages ms msgsOut = msgsOut @ concat (map (\<lambda>m. pushMessage m []) ms)"
proof (induction ms arbitrary: msgsOut)
  case Nil
  show ?case by simp
next
  case (Cons m ms)
  have "normalizeMessages (m # ms) msgsOut = pushMessage m msgsOut @ concat (map (\<lambda>m. pushMessage m []) ms)"
    by (simp add: Cons.IH)
  also have "\<dots> = msgsOut @ pushMessage m [] @ concat (map (\<lambda>m. pushMessage m []) ms)"
    using pushMessage_append [of m msgsOut] by simp
  finally show ?case by simp
qed

lemma system_dropped:
  assumes "dot m ''role'' = JStr ''system''"
    and "dot m ''content'' = JStr [] \<or> \<not> typeofString (dot m ''content'')"
  shows "pushMessage m msgsOut = msgsOut"
  using assms by (cases m) (auto simp: pushMessage.simps)

lemma pushMessage_no_empty_system:
  assumes "x \<in> set (pushMessage m [])" "dot x ''role'' = JStr ''system''"
  shows "typeofString (dot x ''content'') \<and> dot x ''content'' \<noteq> JStr []"
  using assms by (auto simp: pushMessage.simps Let_def split: if_splits)

lemma contentParts_text_string:
  assumes "q \<in> set (contentParts ps [])" "dot q ''type'' = JStr ''text''"
  shows "typeofString (dot q ''text'')"
  using assms by (auto simp: contentParts_eq)


lemma messages_of_fromOaRequest:
  "set (elems (dot (fromOaRequest body) ''messages'')) \<subseteq> (\<Union>m \<in> set (elems (dot body ''messages'')). set (pushMessage m []))"
  by (cases body) (auto simp: fromOaRequest.simps Let_def normalizeMessages_eq split: option.splits json.splits)


lemma fromOaRequest_messages:
  assumes "dot body ''messages'' = JArr ms"
  shows "dot (fromOaRequest body) ''messages'' = JArr (normalizeMessages ms [])"
  using assms by (cases body) (simp_all add: fromOaRequest.simps Let_def)

text \<open>
  Claim C8. A message with role \<^verbatim>\<open>"system"\<close> whose content is the empty string, or is
  not a string, contributes nothing to the normalized messages: the normalizer's output
  on a message list holding it is its output on the list without it. No normalized
  message of any request body is a system message with empty-string content.
\<close>

theorem empty_system_message_dropped:
  assumes "dot m ''role'' = JStr ''system''"
    and "dot m ''content'' = JStr [] \<or> \<not> typeofString (dot m ''content'')"
    and "dot body ''messages'' = JArr (before @ m # after)"
  shows "dot (fromOaRequest body) ''messages'' = JArr (normalizeMessages (before @ after) []) \<and>
         (\<forall>x \<in> set (elems (dot (fromOaRequest body') ''messages'')).
            dot x ''role'' = JStr ''system'' \<longrightarrow> dot x ''content'' \<noteq> JStr [])"
proof
  have "pushMessage m [] = []"
    using assms(1,2) by (rule system_dropped)
  then have "normalizeMessages (before @ m # after) [] = normalizeMessages (before @ after) []"
    by (simp add: normalizeMessages_eq)
  then show "dot (fromOaRequest body) ''messages'' = JArr (normalizeMessages (before @ after) [])"
    using fromOaRequest_messages [OF assms(3)] by simp
next
  show "\<forall>x \<in> set (elems (dot (fromOaRequest body') ''messages'')).
            dot x ''role'' = JStr ''system'' \<longrightarrow> dot x ''content'' \<noteq> JStr []"
    using messages_of_fromOaRequest [of body'] pushMessage_no_empty_system by blast
qed

theorem empty_system_message_dropped_witness:
  "dot (fromOaRequest (JObj [(''messages'',
          JArr [JObj [(''role'', JStr ''system''), (''content'', JStr [])]])])) ''messages''
     = JArr []"
  using empty_system_message_dropped
    [of "JObj [(''role'', JStr ''system''), (''content'', JStr [])]"
        "JObj [(''messages'', JArr [JObj [(''role'', JStr ''system''), (''content'', JStr [])]])]"
        "[]" "[]"]
  by simp





section \<open>Properties of the authentication gate\<close>

lemma splitOn_not_Nil: "splitOn d s \<noteq> []"
  by (induction s) (auto split: list.splits)

lemma joinWith_splitOn: "joinWith [d] (splitOn d s) = s"
proof (induction s)
  case Nil
  show ?case by simp
next
  case (Cons c cs)
  obtain w ws where ws: "splitOn d cs = w # ws"
    using splitOn_not_Nil [of d cs] by (cases "splitOn d cs") auto
  show ?case
  proof (cases "c = d")
    case True
    then show ?thesis using Cons.IH ws by simp
  next
    case False
    then show ?thesis using Cons.IH ws by (cases ws) auto
  qed
qed

lemma splitOn_two: "splitOn d s = [a, b] \<Longrightarrow> s = a @ d # b"
  using joinWith_splitOn [of d s] by simp

lemma validateApiKey_exact:
  assumes "validateApiKey (Some h) (Some key)" and "key \<noteq> []"
  shows "h = ''Bearer '' @ key"
proof -
  obtain k ks where key: "key = k # ks" using assms(2) by (cases key) auto
  from assms(1) key obtain c cs where h: "h = c # cs" by (cases h) auto
  from assms(1) have len: "length (splitOn CHR '' '' h) = 2"
    and b: "splitOn CHR '' '' h ! 0 = ''Bearer''" and k: "splitOn CHR '' '' h ! 1 = key"
    unfolding key h by (auto simp: Let_def split: if_splits)
  from len obtain x y where xy: "splitOn CHR '' '' h = [x, y]"
    by (cases "splitOn CHR '' '' h" rule: list.exhaust; simp; metis length_0_conv length_Suc_conv)
  with b k have "splitOn CHR '' '' h = [''Bearer'', key]" by simp
  then show ?thesis using splitOn_two by fastforce
qed

text \<open>
  Claim C7 says that, with a key configured, a request whose Authorization header is
  not the bearer form of the key is answered with 401 and \<^verbatim>\<open>authentication_error\<close>, and
  that every request passes when no key is configured. \<^verbatim>\<open>validateApiKey\<close> decides so
  (the lemma above), but the middleware throws at \<^verbatim>\<open>c.req.path()\<close> before it calls it:
  with the key \<^verbatim>\<open>secret\<close> and the header \<^verbatim>\<open>Bearer wrong\<close> the answer is the framework's
  500, and so it is with no key configured and no header.
\<close>

theorem auth_middleware_throws_before_the_check:
  "authMiddleware (Some ''secret'') ''/v1/models'' (Some ''Bearer wrong'') = Inl typeError \<and>
   appUse (Some ''secret'') ''/v1/models'' (Some ''Bearer wrong'')
     = Some (TextResponse 500 ''Internal Server Error'') \<and>
   statusOf (TextResponse 500 ''Internal Server Error'') = 500 \<and>
   errorTypeOf (TextResponse 500 ''Internal Server Error'') = JUndefined \<and>
   validateApiKey (Some ''Bearer wrong'') (Some ''secret'') = False \<and>
   appUse None ''/health'' None = Some (TextResponse 500 ''Internal Server Error'')"
  by simp

section \<open>Properties of the response translator\<close>

declare toOaResponse.simps [simp del] chatCompletions.simps [simp del] nonStreaming.simps [simp del]
  nonStreamingResponse.simps [simp del]
  nonStreamingTry.simps [simp del] streamingBody.simps [simp del] streamTry.simps [simp del]
  buildMessageParts.simps [simp del] fallbackReply.simps [simp del]

lemma joinWith_Nil_sep: "joinWith [] xs = concat xs"
proof (induction xs)
  case Nil
  show ?case by simp
next
  case (Cons x xs)
  then show ?case by (cases xs) simp_all
qed

lemma filterTypeText_total:
  assumes "\<forall>p \<in> set ps. \<not> nullish p"
  shows "filterTypeText ps = Inr (filter isTextPart ps)"
  using assms by (induction ps) simp_all

lemma textOfParts_total:
  assumes "\<forall>p \<in> set ps. \<not> nullish p"
  shows "textOfParts ps = Inr (concat (map partText (filter isTextPart ps)))"
proof -
  have item: "(if nullish (coalesce (dot p ''text'') (JStr [])) then []
               else toStringJS (coalesce (dot p ''text'') (JStr []))) = partText p" for p
    by simp
  have "arrayJoin [] (map (\<lambda>p. coalesce (dot p ''text'') (JStr [])) ks) = concat (map partText ks)"
    for ks
    using item by (simp add: joinWith_Nil_sep comp_def del: partText.simps coalesce.simps)
  then show ?thesis
    using filterTypeText_total [OF assms]
    by (simp del: partText.simps isTextPart.simps arrayJoin.simps)
qed

text \<open>
  Claim C5. For a backend reply object whose parts, if any, are objects, the translation
  returns a \<^verbatim>\<open>chat.completion\<close> with a single choice of index 0, role
  \<^verbatim>\<open>"assistant"\<close> and finish reason \<^verbatim>\<open>"stop"\<close>; its content is the concatenation, in
  order and with no separator, of the text fields of exactly the parts of type
  \<^verbatim>\<open>"text"\<close>; the model is \<^verbatim>\<open>"opencode"\<close> when the reply has none.
\<close>

theorem toOaResponse_completion:
  assumes "truthy resp" and "typeofObject resp"
    and "\<forall>p \<in> set (elems (dot resp ''parts'')). \<not> nullish p"
  shows "\<exists>out choice.
           toOaResponse rnd nowMs resp = Inr out \<and>
           dot out ''object'' = JStr ''chat.completion'' \<and>
           dot out ''choices'' = JArr [choice] \<and>
           dot choice ''index'' = JNum 0 \<and>
           dot (dot choice ''message'') ''role'' = JStr ''assistant'' \<and>
           dot choice ''finish_reason'' = JStr ''stop'' \<and>
           dot (dot choice ''message'') ''content'' =
             JStr (concat (map partText (filter isTextPart (elems (dot resp ''parts''))))) \<and>
           dot out ''model'' =
             (if nullish (dot resp ''model'') then JStr ''opencode'' else dot resp ''model'')"
proof -
  let ?ps = "elems (dot resp ''parts'')"
  have ps: "(if isArray (dot resp ''parts'') then elems (dot resp ''parts'') else []) = ?ps"
    by (cases "dot resp ''parts''") simp_all
  show ?thesis
    using assms(1,2) textOfParts_total [OF assms(3)]
    by (simp add: toOaResponse.simps ps del: textOfParts.simps partText.simps isTextPart.simps)
qed

theorem toOaResponse_completion_witness:
  "toOaResponse ''k3x9'' 1700000000123
     (JObj [(''parts'', JArr [JObj [(''type'', JStr ''text''), (''text'', JStr ''Hi '')],
                              JObj [(''type'', JStr ''tool''), (''text'', JStr ''skipped'')],
                              JObj [(''type'', JStr ''text'')],
                              JObj [(''type'', JStr ''text''), (''text'', JStr ''there'')]])])
   = Inr (JObj [(''id'', JStr ''chatcmpl_k3x9''),
                (''object'', JStr ''chat.completion''),
                (''created'', JNum 1700000000),
                (''model'', JStr ''opencode''),
                (''choices'',
                   JArr [JObj [(''index'', JNum 0),
                               (''message'', JObj [(''role'', JStr ''assistant''),
                                                   (''content'', JStr ''Hi there'')]),
                               (''finish_reason'', JStr ''stop'')]])])"
  using toOaResponse_completion [of
     "JObj [(''parts'', JArr [JObj [(''type'', JStr ''text''), (''text'', JStr ''Hi '')],
                              JObj [(''type'', JStr ''tool''), (''text'', JStr ''skipped'')],
                              JObj [(''type'', JStr ''text'')],
                              JObj [(''type'', JStr ''text''), (''text'', JStr ''there'')]])]"
     "''k3x9''" 1700000000123]
  by (simp add: toOaResponse.simps)

section \<open>Properties of the route handler, non-streaming path\<close>

lemma startsWith_iff: "startsWith s needle \<longleftrightarrow> (\<exists>suf. s = needle @ suf)"
  by (induction s needle rule: startsWith.induct) auto

lemma includesStr_iff: "includesStr s needle \<longleftrightarrow> (\<exists>pre suf. s = pre @ needle @ suf)"
proof (induction s)
  case Nil
  show ?case by auto
next
  case (Cons c cs)
  show ?case
  proof
    assume "includesStr (c # cs) needle"
    then consider "startsWith (c # cs) needle" | "includesStr cs needle" by auto
    then show "\<exists>pre suf. c # cs = pre @ needle @ suf"
    proof cases
      case 1
      then obtain suf where "c # cs = needle @ suf" by (auto simp: startsWith_iff)
      then have "c # cs = [] @ needle @ suf" by simp
      then show ?thesis by blast
    next
      case 2
      then obtain pre suf where "cs = pre @ needle @ suf" using Cons.IH by auto
      then have "c # cs = (c # pre) @ needle @ suf" by simp
      then show ?thesis by blast
    qed
  next
    assume "\<exists>pre suf. c # cs = pre @ needle @ suf"
    then obtain pre suf where eq: "c # cs = pre @ needle @ suf" by auto
    show "includesStr (c # cs) needle"
    proof (cases pre)
      case Nil
      with eq have "startsWith (c # cs) needle" by (auto simp: startsWith_iff)
      then show ?thesis by simp
    next
      case (Cons d ds)
      with eq have "cs = ds @ needle @ suf" by simp
      then have "includesStr cs needle" using Cons.IH by auto
      then show ?thesis by simp
    qed
  qed
qed

lemma parsed_stream:
  assumes "\<not> nullish body"
  shows "\<exists>s. dotE (fromOaRequest body) ''stream'' = Inr s \<and> truthy s = truthy (dot body ''stream'')"
  using assms by (cases body) (auto simp: fromOaRequest.simps Let_def)

text \<open>
  The projection to backend parts never throws on a normalized request: the hypothesis
  that names the message parts in the theorems below holds of every body but
  \<^verbatim>\<open>null\<close>.
\<close>

lemma pushTextParts_total:
  assumes "\<forall>p \<in> set ps. \<not> nullish p"
  shows "\<exists>r. pushTextParts ps messageParts = Inr r"
  using assms by (induction ps arbitrary: messageParts) simp_all

lemma messagePartsLoop_total:
  assumes "\<forall>m \<in> set ms. \<not> nullish m \<and>
             (dot m ''role'' = JStr ''user'' \<longrightarrow> (\<forall>p \<in> set (elems (dot m ''content'')). \<not> nullish p))"
  shows "\<exists>r. messagePartsLoop ms messageParts = Inr r"
  using assms
proof (induction ms arbitrary: messageParts)
  case Nil
  show ?case by simp
next
  case (Cons m ms)
  then have IH: "\<And>acc. \<exists>r. messagePartsLoop ms acc = Inr r" and nn: "\<not> nullish m"
    and ps: "dot m ''role'' = JStr ''user'' \<Longrightarrow> \<forall>p \<in> set (elems (dot m ''content'')). \<not> nullish p"
    by simp_all
  show ?case
  proof (cases "dot m ''role'' = JStr ''user'' \<and> \<not> typeofString (dot m ''content'') \<and> isArray (dot m ''content'')")
    case True
    then obtain r where "pushTextParts (elems (dot m ''content'')) messageParts = Inr r"
      using pushTextParts_total [OF ps] by blast
    then show ?thesis using True nn IH [of r] by simp
  next
    case False
    then show ?thesis using nn IH by auto
  qed
qed

lemma pushMessage_walkable:
  assumes "x \<in> set (pushMessage m [])"
  shows "\<not> nullish x \<and>
         (dot x ''role'' = JStr ''user'' \<longrightarrow> (\<forall>p \<in> set (elems (dot x ''content'')). \<not> nullish p))"
proof -
  let ?parts = "contentParts (elems (dot m ''content'')) []"
  have one: "elems (dot (?parts ! 0) ''text'') = []"
    if "length ?parts = 1" "dot (?parts ! 0) ''type'' = JStr ''text''"
  proof -
    from that(1) have "?parts ! 0 \<in> set ?parts" by (metis nth_mem zero_less_one)
    then have "typeofString (dot (?parts ! 0) ''text'')"
      using that(2) by (rule contentParts_text_string)
    then show ?thesis by (cases "dot (?parts ! 0) ''text''") simp_all
  qed
  have str: "elems v = []" if "typeofString v" for v using that by (cases v) simp_all
  have parts: "\<not> nullish p" if "p \<in> set ?parts" for p
    using that by (auto simp: contentParts_eq)
  show ?thesis
    using assms one str parts
    by (auto simp: pushMessage.simps Let_def split: if_splits)
qed

lemma buildMessageParts_total:
  assumes "\<not> nullish body"
  shows "\<exists>messageParts. buildMessageParts (fromOaRequest body) = Inr messageParts"
proof (cases "truthy body \<and> typeofObject body")
  case False
  then have "fromOaRequest body = body" by (auto simp: fromOaRequest.simps)
  moreover have "dot body ''messages'' = JUndefined" using False by (cases body) auto
  ultimately show ?thesis using assms by (simp add: buildMessageParts.simps)
next
  case True
  let ?ms = "normalizeMessages (if isArray (dot body ''messages'') then elems (dot body ''messages'') else []) []"
  have m: "dot (fromOaRequest body) ''messages'' = JArr ?ms" and nn: "\<not> nullish (fromOaRequest body)"
    using True by (simp_all add: fromOaRequest.simps Let_def)
  have "\<forall>x \<in> set ?ms. \<not> nullish x \<and>
         (dot x ''role'' = JStr ''user'' \<longrightarrow> (\<forall>p \<in> set (elems (dot x ''content'')). \<not> nullish p))"
    using pushMessage_walkable by (auto simp: normalizeMessages_eq)
  from messagePartsLoop_total [OF this, of "[]"] show ?thesis
    using m nn by (simp add: buildMessageParts.simps)
qed

lemma chatCompletions_nonStreaming:
  assumes "\<not> nullish body" and "\<not> truthy (dot body ''stream'')"
  shows "chatCompletions env client (Some body) =
     (case nonStreaming env client (fromOaRequest body) of
        Inr response \<Rightarrow> response
      | Inl error \<Rightarrow> JsonResponse 400
          (createErrorResponse 400 (messageOr error ''Invalid request'') ''invalid_request_error''))"
proof -
  obtain s where "dotE (fromOaRequest body) ''stream'' = Inr s" "\<not> truthy s"
    using parsed_stream [OF assms(1)] assms(2) by auto
  then show ?thesis
    by (simp add: chatCompletions.simps del: dotE.simps createErrorResponse.simps)
qed

text \<open>
  Claim C3. On the non-streaming path, when the backend message call throws, the
  response has status 504 and \<^verbatim>\<open>error.type\<close> \<^verbatim>\<open>provider_error\<close> if the failure's message
  text contains \<^verbatim>\<open>timeout\<close>, and status 500 and \<^verbatim>\<open>error.type\<close> \<^verbatim>\<open>server_error\<close>
  otherwise; \<^verbatim>\<open>error.message\<close> is the message text. The message text of an \<^verbatim>\<open>Error\<close> is
  its message; any other thrown value is given the text \<^verbatim>\<open>Unknown error occurred\<close>.
\<close>

theorem backend_failure_classified:
  assumes "\<not> nullish body" and "\<not> truthy (dot body ''stream'')"
    and "session_create client = Inr session" and "\<not> nullish session"
    and "buildMessageParts (fromOaRequest body) = Inr messageParts"
    and "session_message client (dot session ''id'') (JObj [(''parts'', JArr messageParts)]) = Throws e"
  shows "(includesStr (messageOr e ''Unknown error occurred'') ''timeout'' \<longrightarrow>
            (\<exists>responseBody.
               chatCompletions env client (Some body) = JsonResponse 504 responseBody \<and>
               responseBody = createErrorResponse 504 (messageOr e ''Unknown error occurred'')
                                ''provider_error'' \<and>
               statusOf (chatCompletions env client (Some body)) = 504 \<and>
               errorTypeOf (chatCompletions env client (Some body)) = JStr ''provider_error'' \<and>
               dot (dot responseBody ''error'') ''type'' = JStr ''provider_error'' \<and>
               dot (dot responseBody ''error'') ''message''
                 = JStr (messageOr e ''Unknown error occurred''))) \<and>
         (\<not> includesStr (messageOr e ''Unknown error occurred'') ''timeout'' \<longrightarrow>
            (\<exists>responseBody.
               chatCompletions env client (Some body) = JsonResponse 500 responseBody \<and>
               responseBody = createErrorResponse 500 (messageOr e ''Unknown error occurred'')
                                ''server_error'' \<and>
               statusOf (chatCompletions env client (Some body)) = 500 \<and>
               errorTypeOf (chatCompletions env client (Some body)) = JStr ''server_error'' \<and>
               dot (dot responseBody ''error'') ''type'' = JStr ''server_error'' \<and>
               dot (dot responseBody ''error'') ''message''
                 = JStr (messageOr e ''Unknown error occurred'')))"
proof -
  have "nonStreamingTry env client session messageParts = Inl e"
    using assms(4,6) by (simp add: nonStreamingTry.simps)
  then have "nonStreaming env client (fromOaRequest body) =
      Inr (if includesStr (messageOr e ''Unknown error occurred'') ''timeout''
           then JsonResponse 504 (createErrorResponse 504 (messageOr e ''Unknown error occurred'')
                                  ''provider_error'')
           else JsonResponse 500 (createErrorResponse 500 (messageOr e ''Unknown error occurred'')
                                  ''server_error''))"
    using assms(3,5)
    by (simp add: nonStreaming.simps nonStreamingResponse.simps Let_def del: createErrorResponse.simps)
  then have "chatCompletions env client (Some body) =
      (if includesStr (messageOr e ''Unknown error occurred'') ''timeout''
       then JsonResponse 504 (createErrorResponse 504 (messageOr e ''Unknown error occurred'')
                              ''provider_error'')
       else JsonResponse 500 (createErrorResponse 500 (messageOr e ''Unknown error occurred'')
                              ''server_error''))"
    using chatCompletions_nonStreaming [OF assms(1,2), of env client] by simp
  then show ?thesis by simp
qed

theorem backend_failure_classified_witness:
  "statusOf (chatCompletions fixedEnv (constClient (Throws (ErrorObj ''upstream timeout after 60s'')))
     (Some (JObj [(''messages'', JArr [JObj [(''role'', JStr ''user''), (''content'', JStr ''Hello'')]])])))
   = 504 \<and>
   errorTypeOf (chatCompletions fixedEnv (constClient (Throws (ErrorObj ''upstream timeout after 60s'')))
     (Some (JObj [(''messages'', JArr [JObj [(''role'', JStr ''user''), (''content'', JStr ''Hello'')]])])))
   = JStr ''provider_error'' \<and>
   statusOf (chatCompletions fixedEnv (constClient (Throws (ErrorObj ''connection refused'')))
     (Some (JObj [(''messages'', JArr [JObj [(''role'', JStr ''user''), (''content'', JStr ''Hello'')]])])))
   = 500 \<and>
   errorTypeOf (chatCompletions fixedEnv (constClient (Throws (ErrorObj ''connection refused'')))
     (Some (JObj [(''messages'', JArr [JObj [(''role'', JStr ''user''), (''content'', JStr ''Hello'')]])])))
   = JStr ''server_error'' \<and>
   statusOf (chatCompletions fixedEnv (constClient (Throws NonError))
     (Some (JObj [(''messages'', JArr [JObj [(''role'', JStr ''user''), (''content'', JStr ''Hello'')]])])))
   = 500 \<and>
   errorTypeOf (chatCompletions fixedEnv (constClient (Throws NonError))
     (Some (JObj [(''messages'', JArr [JObj [(''role'', JStr ''user''), (''content'', JStr ''Hello'')]])])))
   = JStr ''server_error''"
  using backend_failure_classified [of
      "JObj [(''messages'', JArr [JObj [(''role'', JStr ''user''), (''content'', JStr ''Hello'')]])]"
      "constClient (Throws (ErrorObj ''upstream timeout after 60s''))"
      "JObj [(''id'', JStr ''ses_1'')]"
      "[JObj [(''type'', JStr ''text''), (''text'', JStr ''Hello'')]]"
      "ErrorObj ''upstream timeout after 60s''" fixedEnv]
    backend_failure_classified [of
      "JObj [(''messages'', JArr [JObj [(''role'', JStr ''user''), (''content'', JStr ''Hello'')]])]"
      "constClient (Throws (ErrorObj ''connection refused''))"
      "JObj [(''id'', JStr ''ses_1'')]"
      "[JObj [(''type'', JStr ''text''), (''text'', JStr ''Hello'')]]"
      "ErrorObj ''connection refused''" fixedEnv]
    backend_failure_classified [of
      "JObj [(''messages'', JArr [JObj [(''role'', JStr ''user''), (''content'', JStr ''Hello'')]])]"
      "constClient (Throws NonError)"
      "JObj [(''id'', JStr ''ses_1'')]"
      "[JObj [(''type'', JStr ''text''), (''text'', JStr ''Hello'')]]"
      "NonError" fixedEnv]
  by (simp add: constClient_def fromOaRequest.simps pushMessage.simps buildMessageParts.simps
        del: createErrorResponse.simps)

text \<open>
  Claim C1 says that a body that is not valid JSON is answered with 400 and
  \<^verbatim>\<open>invalid_request_error\<close>. The handler replaces the failed parse by the empty object
  and goes on: with the CLI's client the answer is a completion with status 200.
\<close>

theorem invalid_json_body_counterexample:
  "chatCompletions fixedEnv mockClient None =
     JsonResponse 200
       (JObj [(''id'', JStr ''chatcmpl_k3x9''),
              (''object'', JStr ''chat.completion''),
              (''created'', JNum 1700000000),
              (''model'', JStr ''opencode/default''),
              (''choices'',
                 JArr [JObj [(''index'', JNum 0),
                             (''message'', JObj [(''role'', JStr ''assistant''),
                                                 (''content'', JStr ''Hello from OpenCode!'')]),
                             (''finish_reason'', JStr ''stop'')]])]) \<and>
   statusOf (chatCompletions fixedEnv mockClient None) = 200 \<and>
   errorTypeOf (chatCompletions fixedEnv mockClient None) = JUndefined"
  by (simp add: chatCompletions.simps nonStreaming.simps nonStreamingResponse.simps
      nonStreamingTry.simps mockClient_def fixedEnv_def fromOaRequest.simps buildMessageParts.simps
      toOaResponse.simps)

text \<open>
  Claim C1, amended. A body that is not valid JSON is handled exactly as the body
  \<^verbatim>\<open>{}\<close>, a non-streaming request with no message parts. Once the backend session is
  created the response is not 400: it is 200 with the translated completion when the
  backend call and the translation succeed; when they fail it is 504 with error type
  \<^verbatim>\<open>provider_error\<close> if the failure's message text contains \<^verbatim>\<open>timeout\<close>, and 500 with
  error type \<^verbatim>\<open>server_error\<close> otherwise.
\<close>

theorem invalid_json_body_handled_as_empty_object:
  assumes "session_create client = Inr session"
  shows "chatCompletions env client None = chatCompletions env client (Some (JObj [])) \<and>
         statusOf (chatCompletions env client None) \<noteq> 400 \<and>
         (case nonStreamingTry env client session [] of
            Inr resp \<Rightarrow> chatCompletions env client None = JsonResponse 200 resp
          | Inl error \<Rightarrow>
              (if includesStr (messageOr error ''Unknown error occurred'') ''timeout''
               then statusOf (chatCompletions env client None) = 504 \<and>
                    errorTypeOf (chatCompletions env client None) = JStr ''provider_error''
               else statusOf (chatCompletions env client None) = 500 \<and>
                    errorTypeOf (chatCompletions env client None) = JStr ''server_error''))"
  using assms
  by (simp add: chatCompletions.simps nonStreaming.simps nonStreamingResponse.simps
      fromOaRequest.simps buildMessageParts.simps Let_def split: sum.splits)

theorem invalid_json_body_handled_as_empty_object_witness:
  "chatCompletions fixedEnv (constClient (Reply (JObj [(''model'', JStr ''m1'')]))) None =
     chatCompletions fixedEnv (constClient (Reply (JObj [(''model'', JStr ''m1'')]))) (Some (JObj [])) \<and>
   chatCompletions fixedEnv (constClient (Reply (JObj [(''model'', JStr ''m1'')]))) None =
     JsonResponse 200
       (JObj [(''id'', JStr ''chatcmpl_k3x9''),
              (''object'', JStr ''chat.completion''),
              (''created'', JNum 1700000000),
              (''model'', JStr ''m1''),
              (''choices'',
                 JArr [JObj [(''index'', JNum 0),
                             (''message'', JObj [(''role'', JStr ''assistant''),
                                                 (''content'', JStr [])]),
                             (''finish_reason'', JStr ''stop'')]])]) \<and>
   statusOf (chatCompletions fixedEnv (constClient (Throws (ErrorObj ''gateway timeout''))) None) = 504 \<and>
   errorTypeOf (chatCompletions fixedEnv (constClient (Throws (ErrorObj ''gateway timeout''))) None)
     = JStr ''provider_error'' \<and>
   statusOf (chatCompletions fixedEnv (constClient (Throws (ErrorObj ''model not found''))) None) = 500 \<and>
   errorTypeOf (chatCompletions fixedEnv (constClient (Throws (ErrorObj ''model not found''))) None)
     = JStr ''server_error''"
  using invalid_json_body_handled_as_empty_object [of
      "constClient (Reply (JObj [(''model'', JStr ''m1'')]))" "JObj [(''id'', JStr ''ses_1'')]" fixedEnv]
    invalid_json_body_handled_as_empty_object [of
      "constClient (Throws (ErrorObj ''gateway timeout''))" "JObj [(''id'', JStr ''ses_1'')]" fixedEnv]
    invalid_json_body_handled_as_empty_object [of
      "constClient (Throws (ErrorObj ''model not found''))" "JObj [(''id'', JStr ''ses_1'')]" fixedEnv]
  by (auto simp: constClient_def fixedEnv_def nonStreamingTry.simps toOaResponse.simps)

text \<open>
  Claim C2 says that a backend call still running when \<open>timeoutMs\<close> elapses is aborted
  and answered as a provider timeout. With a deadline of 1000 ms and the CLI's client
  settling after 5000 ms, \<^verbatim>\<open>abort()\<close> runs but reaches nothing: the response comes at
  5000 ms, with status 200 and the completion. When the call never settles there is no
  response at all.
\<close>

theorem deadline_does_not_abort_backend_call:
  "nonStreamingTimed 1000 (Some 5000) fixedEnv mockClient (JObj [(''id'', JStr ''mock-session'')])
     [JObj [(''type'', JStr ''text''), (''text'', JStr ''Hello'')]]
   = Some (5000, True,
       JsonResponse 200
         (JObj [(''id'', JStr ''chatcmpl_k3x9''),
                (''object'', JStr ''chat.completion''),
                (''created'', JNum 1700000000),
                (''model'', JStr ''opencode/default''),
                (''choices'',
                   JArr [JObj [(''index'', JNum 0),
                               (''message'', JObj [(''role'', JStr ''assistant''),
                                                   (''content'', JStr ''Hello from OpenCode!'')]),
                               (''finish_reason'', JStr ''stop'')]])])) \<and>
   nonStreamingTimed 1000 None fixedEnv mockClient (JObj [(''id'', JStr ''mock-session'')])
     [JObj [(''type'', JStr ''text''), (''text'', JStr ''Hello'')]]
   = None"
  by (simp add: nonStreamingResponse.simps nonStreamingTry.simps mockClient_def fixedEnv_def
      toOaResponse.simps)

section \<open>Properties of the stream translator\<close>

declare writeChunk.simps [simp del] toOaStreamChunk.simps [simp del] emitsFrame.simps [simp del]
  chunkParts.simps [simp del] wellFormedChunk.simps [simp del]

lemma written_writeChunk:
  "written (writeChunk env model partial st) =
     written st @ [WData (toOaStreamChunk (randomToken env (calls st)) (clockMs env (calls st)) partial model)]"
  and calls_writeChunk: "calls (writeChunk env model partial st) = Suc (calls st)"
  by (simp_all add: writeChunk.simps)

lemma isChunkFrame_toOaStreamChunk [simp]:
  "dot (toOaStreamChunk rnd nowMs partial model) ''object'' = JStr ''chat.completion.chunk''"
  "dot (toOaStreamChunk rnd nowMs partial model) ''error'' = JUndefined"
  by (simp_all add: toOaStreamChunk.simps)

lemma deltaContent_toOaStreamChunk [simp]:
  "elems (dot (toOaStreamChunk rnd nowMs partial model) ''choices'') =
     [JObj [(''index'', JNum 0), (''delta'', JObj [(''content'', partial)]),
            (''finish_reason'', JNull)]]"
  by (simp add: toOaStreamChunk.simps)

lemma framesFrom_append:
  "framesFrom env model k (ps @ qs) = framesFrom env model k ps @ framesFrom env model (k + length ps) qs"
  by (induction ps arbitrary: k) simp_all

lemma length_framesFrom: "length (framesFrom env model k ps) = length ps"
  by (induction ps arbitrary: k) simp_all

lemma framesFrom_chunk_frames: "\<forall>w \<in> set (framesFrom env model k ps). isChunkFrame w"
  by (induction ps arbitrary: k) simp_all

lemma deltaContent_framesFrom:
  "map deltaContent (framesFrom env model k ps) = map (\<lambda>p. dot p ''text'') ps"
  by (induction ps arbitrary: k) simp_all

text \<open>What a loop over parts leaves in the stream, whether or not it throws.\<close>

lemma partsLoop_shape:
  assumes "partsLoop env model ps st = (r, st')"
  shows "\<exists>fs. written st' = written st @ fs \<and> (\<forall>w \<in> set fs. isChunkFrame w)"
  using assms
proof (induction ps arbitrary: st)
  case Nil
  then show ?case by simp
next
  case (Cons part rest)
  show ?case
  proof (cases "nullish part")
    case True
    with Cons.prems show ?thesis by simp
  next
    case False
    show ?thesis
    proof (cases "emitsFrame part")
      case True
      with False Cons.prems
      have "partsLoop env model rest (writeChunk env model (dot part ''text'') st) = (r, st')"
        by (simp add: emitsFrame.simps)
      from Cons.IH [OF this] obtain fs where
        "written st' = written (writeChunk env model (dot part ''text'') st) @ fs"
        "\<forall>w \<in> set fs. isChunkFrame w" by blast
      then show ?thesis
        by (auto simp: written_writeChunk
            intro!: exI [of _ "WData (toOaStreamChunk (randomToken env (calls st))
                    (clockMs env (calls st)) (dot part ''text'') model) # fs"])
    next
      case no: False
      with False Cons.prems have "partsLoop env model rest st = (r, st')"
        by (auto simp: emitsFrame.simps)
      from Cons.IH [OF this] show ?thesis .
    qed
  qed
qed

lemma partsLoop_exact:
  assumes "\<forall>p \<in> set ps. \<not> nullish p"
  shows "partsLoop env model ps st =
           (None, \<lparr>written = written st @ framesFrom env model (calls st) (filter emitsFrame ps),
                   calls = calls st + length (filter emitsFrame ps)\<rparr>)"
  using assms
proof (induction ps arbitrary: st)
  case Nil
  show ?case by simp
next
  case (Cons part rest)
  then have IH: "\<And>st. partsLoop env model rest st =
           (None, \<lparr>written = written st @ framesFrom env model (calls st) (filter emitsFrame rest),
                   calls = calls st + length (filter emitsFrame rest)\<rparr>)"
    and nn: "\<not> nullish part" by simp_all
  show ?case
  proof (cases "emitsFrame part")
    case True
    then have "partsLoop env model (part # rest) st =
        partsLoop env model rest (writeChunk env model (dot part ''text'') st)"
      using nn by (simp add: emitsFrame.simps)
    then show ?thesis using True IH by (simp add: written_writeChunk calls_writeChunk)
  next
    case False
    then have "partsLoop env model (part # rest) st = partsLoop env model rest st"
      using nn by (auto simp: emitsFrame.simps)
    then show ?thesis using False IH by simp
  qed
qed

lemma chunkLoop_shape:
  assumes "chunkLoop env model chunks fail st = (r, st')"
  shows "(\<exists>fs. written st' = written st @ fs \<and> (\<forall>w \<in> set fs. isChunkFrame w)) \<and>
         (r = None \<longrightarrow> fail = None)"
  using assms
proof (induction chunks arbitrary: st)
  case Nil
  then show ?case by simp
next
  case (Cons chunk rest)
  show ?case
  proof (cases "truthy chunk \<and> truthy (dot chunk ''parts'')")
    case False
    with Cons.prems have "chunkLoop env model rest fail st = (r, st')" by auto
    from Cons.IH [OF this] show ?thesis .
  next
    case True
    show ?thesis
    proof (cases "iterate (dot chunk ''parts'')")
      case (Inl e)
      with True Cons.prems show ?thesis by auto
    next
      case (Inr parts)
      obtain r1 st1 where p: "partsLoop env model parts st = (r1, st1)" by (cases "partsLoop env model parts st")
      from partsLoop_shape [OF p] obtain fs1 where
        fs1: "written st1 = written st @ fs1" "\<forall>w \<in> set fs1. isChunkFrame w" by blast
      show ?thesis
      proof (cases r1)
        case (Some e)
        with True Inr p Cons.prems have "r = Some e" "st' = st1" by auto
        with fs1 show ?thesis by auto
      next
        case None
        with True Inr p Cons.prems have "chunkLoop env model rest fail st1 = (r, st')" by auto
        from Cons.IH [OF this] obtain fs2 where
          "written st' = written st1 @ fs2" "\<forall>w \<in> set fs2. isChunkFrame w" "r = None \<longrightarrow> fail = None"
          by blast
        with fs1 show ?thesis by (auto intro!: exI [of _ "fs1 @ fs2"])
      qed
    qed
  qed
qed

lemma chunkLoop_exact:
  assumes "\<forall>chunk \<in> set chunks. wellFormedChunk chunk"
  shows "chunkLoop env model chunks fail st =
           (fail, \<lparr>written = written st @
                     framesFrom env model (calls st) (filter emitsFrame (concat (map chunkParts chunks))),
                   calls = calls st + length (filter emitsFrame (concat (map chunkParts chunks)))\<rparr>)"
  using assms
proof (induction chunks arbitrary: st)
  case Nil
  show ?case by simp
next
  case (Cons chunk rest)
  then have IH: "\<And>st. chunkLoop env model rest fail st =
           (fail, \<lparr>written = written st @
                     framesFrom env model (calls st) (filter emitsFrame (concat (map chunkParts rest))),
                   calls = calls st + length (filter emitsFrame (concat (map chunkParts rest)))\<rparr>)"
    and wf: "wellFormedChunk chunk" by simp_all
  show ?case
  proof (cases "truthy chunk \<and> truthy (dot chunk ''parts'')")
    case False
    then have "chunkParts chunk = []" by (auto simp: chunkParts.simps)
    moreover from False have "chunkLoop env model (chunk # rest) fail st = chunkLoop env model rest fail st"
      by auto
    ultimately show ?thesis using IH by simp
  next
    case True
    with wf obtain parts where parts: "dot chunk ''parts'' = JArr parts" "\<forall>p \<in> set parts. \<not> nullish p"
      by (cases "dot chunk ''parts''") (auto simp: list_all_iff wellFormedChunk.simps chunkParts.simps)
    have cp: "chunkParts chunk = parts" using True parts by (simp add: chunkParts.simps)
    show ?thesis
      using True parts(1) partsLoop_exact [OF parts(2), of env model st] IH
      by (simp add: cp framesFrom_append length_framesFrom)
  qed
qed


lemma chunk_frame_not_error: "isChunkFrame w \<Longrightarrow> \<not> isErrorFrame w"
  by (cases w) auto

lemma fallbackReply_shape:
  assumes "fallbackReply env model msg st = (r, st')"
  shows "\<exists>fs. written st' = written st @ fs \<and> (\<forall>w \<in> set fs. isChunkFrame w)"
  using assms
  by (auto simp: fallbackReply.simps Let_def written_writeChunk
      split: if_splits sum.splits simp del: textOfParts.simps)

lemma fallbackReply_exact:
  assumes "wellFormedChunk msg"
  shows "fallbackReply env model msg st =
           (None, if concat (map partText (filter isTextPart (chunkParts msg))) \<noteq> []
                  then writeChunk env model
                         (JStr (concat (map partText (filter isTextPart (chunkParts msg))))) st
                  else st)"
proof -
  let ?parts = "if truthy msg \<and> truthy (dot msg ''parts'') then dot msg ''parts'' else JArr []"
  from assms have arr: "isArray ?parts" and el: "elems ?parts = chunkParts msg"
    and nn: "\<forall>p \<in> set (chunkParts msg). \<not> nullish p"
    by (auto simp: wellFormedChunk.simps chunkParts.simps list_all_iff)
  show ?thesis
    using arr el textOfParts_total [OF nn]
    by (simp add: fallbackReply.simps Let_def
        del: textOfParts.simps partText.simps isTextPart.simps concat_eq_Nil_conv)
qed

lemma streamTry_shape:
  assumes "streamTry env client parsed st = (r, st')"
  shows "\<exists>fs. (\<forall>w \<in> set fs. isChunkFrame w) \<and>
           (case r of None \<Rightarrow> written st' = written st @ fs @ [WDone]
                    | Some e \<Rightarrow> written st' = written st @ fs)"
proof (cases "session_create client")
  case (Inl e)
  with assms show ?thesis by (auto simp: streamTry.simps)
next
  case session: (Inr session)
  show ?thesis
  proof (cases "buildMessageParts parsed")
    case (Inl e)
    with assms session show ?thesis by (auto simp: streamTry.simps)
  next
    case mp: (Inr messageParts)
    show ?thesis
    proof (cases "nullish session")
      case True
      with assms session mp show ?thesis by (auto simp: streamTry.simps)
    next
      case False
      let ?call = "session_message client (dot session ''id'')
                    (JObj [(''parts'', JArr messageParts), (''stream'', JBool True)])"
      let ?model = "coalesce (dot parsed ''model'') (JStr ''opencode'')"
      define inner where "inner =
        (case ?call of
           Throws e \<Rightarrow> (Some e, st)
         | ChunkSeq chunks fail \<Rightarrow> chunkLoop env ?model chunks fail st
         | Reply msg \<Rightarrow> fallbackReply env ?model msg st)"
      obtain r1 st1 where inner: "inner = (r1, st1)" by (cases inner)
      have shape: "\<exists>fs. written st1 = written st @ fs \<and> (\<forall>w \<in> set fs. isChunkFrame w)"
      proof (cases ?call)
        case (Throws e)
        with inner show ?thesis by (simp add: inner_def)
      next
        case (Reply msg)
        with inner have "fallbackReply env ?model msg st = (r1, st1)" by (simp add: inner_def)
        then show ?thesis by (rule fallbackReply_shape)
      next
        case (ChunkSeq chunks fail)
        with inner have "chunkLoop env ?model chunks fail st = (r1, st1)" by (simp add: inner_def)
        from chunkLoop_shape [OF this] show ?thesis by blast
      qed
      have res: "(r, st') = (case inner of (Some e, s) \<Rightarrow> (Some e, s)
                             | (None, s) \<Rightarrow> (None, s\<lparr>written := written s @ [WDone]\<rparr>))"
        using assms session mp False
        by (simp add: streamTry.simps inner_def del: coalesce.simps)
      from shape obtain fs where fs: "written st1 = written st @ fs" "\<forall>w \<in> set fs. isChunkFrame w"
        by blast
      show ?thesis
      proof (cases r1)
        case None
        with res inner have "r = None" "written st' = written st1 @ [WDone]" by auto
        with fs show ?thesis by auto
      next
        case (Some e)
        with res inner have "r = Some e" "st' = st1" by auto
        with fs show ?thesis by auto
      qed
    qed
  qed
qed

lemma streamingBody_shape:
  "\<exists>fs. (\<forall>w \<in> set fs. isChunkFrame w) \<and>
     (streamingBody env client parsed = fs @ [WDone] \<or>
      (\<exists>ef. isErrorFrame ef \<and> streamingBody env client parsed = fs @ [ef, WDone]))"
proof -
  obtain r st' where t: "streamTry env client parsed \<lparr>written = [], calls = 0\<rparr> = (r, st')"
    by (cases "streamTry env client parsed \<lparr>written = [], calls = 0\<rparr>")
  from streamTry_shape [OF t] obtain fs where fs: "\<forall>w \<in> set fs. isChunkFrame w"
    "case r of None \<Rightarrow> written st' = fs @ [WDone] | Some e \<Rightarrow> written st' = fs"
    by (cases r) auto
  show ?thesis
  proof (cases r)
    case None
    with t fs have "streamingBody env client parsed = fs @ [WDone]"
      by (simp add: streamingBody.simps)
    with fs(1) show ?thesis by blast
  next
    case (Some e)
    with t fs obtain ef where "isErrorFrame ef" "streamingBody env client parsed = fs @ [ef, WDone]"
      by (auto simp: streamingBody.simps Let_def)
    with fs(1) show ?thesis by blast
  qed
qed

lemma chatCompletions_streaming:
  assumes "truthy (dot body ''stream'')"
  shows "chatCompletions env client (Some body) =
           JsonResponse 400
             (createErrorResponse 400 (messageOr typeError ''Invalid request'')
                ''invalid_request_error'')"
proof -
  from assms have "\<not> nullish body" by (cases body) auto
  from parsed_stream [OF this] assms obtain s where
    "dotE (fromOaRequest body) ''stream'' = Inr s" "truthy s" by auto
  then show ?thesis
    by (simp add: chatCompletions.simps del: dotE.simps createErrorResponse.simps)
qed

lemma filter_error_chunk_frames:
  assumes "\<forall>w \<in> set fs. isChunkFrame w"
  shows "filter isErrorFrame fs = []" and "filter (\<lambda>w. w = WDone) fs = []"
  using assms chunk_frame_not_error by (auto simp: filter_empty_conv)

text \<open>
  What the callback writes when it is run: chunk frames, then the sentinel alone or one
  error frame and the sentinel; the sentinel is written once, last.
\<close>

lemma callback_ends_with_one_sentinel:
  "\<exists>frames.
     (\<forall>w \<in> set frames. isChunkFrame w) \<and>
     ((streamingBody env client parsed = frames @ [WDone] \<and>
       filter isErrorFrame (streamingBody env client parsed) = []) \<or>
      (\<exists>ef. isErrorFrame ef \<and> streamingBody env client parsed = frames @ [ef, WDone] \<and>
            filter isErrorFrame (streamingBody env client parsed) = [ef])) \<and>
     last (streamingBody env client parsed) = WDone \<and>
     length (filter (\<lambda>w. w = WDone) (streamingBody env client parsed)) = 1"
proof -
  let ?ws = "streamingBody env client parsed"
  obtain fs where fs: "\<forall>w \<in> set fs. isChunkFrame w"
    and form: "?ws = fs @ [WDone] \<or> (\<exists>ef. isErrorFrame ef \<and> ?ws = fs @ [ef, WDone])"
    using streamingBody_shape [of env client parsed] by blast
  note none = filter_error_chunk_frames [OF fs]
  have ef_not_done: "ef \<noteq> WDone" if "isErrorFrame ef" for ef
    using that by (cases ef) auto
  have a: "(?ws = fs @ [WDone] \<and> filter isErrorFrame ?ws = []) \<or>
           (\<exists>ef. isErrorFrame ef \<and> ?ws = fs @ [ef, WDone] \<and> filter isErrorFrame ?ws = [ef])"
    using form none by auto
  have b: "last ?ws = WDone" using form by auto
  have c: "length (filter (\<lambda>w. w = WDone) ?ws) = 1"
    using form none ef_not_done by auto
  from fs a b c show ?thesis by blast
qed

text \<open>
  What the callback writes for a chunk sequence that ends normally: one frame for each
  part of type \<^verbatim>\<open>"text"\<close> with non-empty text, in order, then the sentinel.
\<close>

lemma callback_frames_follow_chunks:
  assumes "session_create client = Inr session" and "\<not> nullish session"
    and "buildMessageParts parsed = Inr messageParts"
    and "session_message client (dot session ''id'')
           (JObj [(''parts'', JArr messageParts), (''stream'', JBool True)]) = ChunkSeq chunks None"
    and "\<forall>chunk \<in> set chunks. wellFormedChunk chunk"
  shows "streamingBody env client parsed =
           framesFrom env (coalesce (dot parsed ''model'') (JStr ''opencode'')) 0
             (filter emitsFrame (concat (map chunkParts chunks))) @ [WDone]"
proof -
  let ?model = "coalesce (dot parsed ''model'') (JStr ''opencode'')"
  let ?ps = "filter emitsFrame (concat (map chunkParts chunks))"
  have "streamTry env client parsed \<lparr>written = [], calls = 0\<rparr> =
          (None, \<lparr>written = framesFrom env ?model 0 ?ps @ [WDone], calls = length ?ps\<rparr>)"
    using assms(1-4) chunkLoop_exact [OF assms(5), of env ?model None "\<lparr>written = [], calls = 0\<rparr>"]
    by (simp add: streamTry.simps del: coalesce.simps)
  then show ?thesis by (simp add: streamingBody.simps)
qed

text \<open>
  Claim C4 says that every streaming request gets an SSE output that ends with the
  sentinel \<^verbatim>\<open>data: [DONE]\<close>, after an error frame when consuming the chunks fails.
  The callback would write that (its three writes are the last conjunct), but the
  handler never runs it: \<^verbatim>\<open>c.streaming\<close> is not a method of the context, the call throws
  into the outer \<^verbatim>\<open>catch\<close>, and the streaming request is answered with a JSON body
  of status 400 and type \<^verbatim>\<open>invalid_request_error\<close>: no frame, no sentinel.
\<close>

theorem streaming_request_answered_without_stream:
  "chatCompletions fixedEnv
     (constClient (ChunkSeq [JObj [(''parts'', JArr [JObj [(''type'', JStr ''text''), (''text'', JStr ''Hel'')]])]]
                    (Some (ErrorObj ''socket closed''))))
     (Some (JObj [(''stream'', JBool True)]))
   = JsonResponse 400
       (createErrorResponse 400 (messageOr typeError ''Invalid request'') ''invalid_request_error'') \<and>
   statusOf (chatCompletions fixedEnv
     (constClient (ChunkSeq [JObj [(''parts'', JArr [JObj [(''type'', JStr ''text''), (''text'', JStr ''Hel'')]])]]
                    (Some (ErrorObj ''socket closed''))))
     (Some (JObj [(''stream'', JBool True)]))) = 400 \<and>
   errorTypeOf (chatCompletions fixedEnv
     (constClient (ChunkSeq [JObj [(''parts'', JArr [JObj [(''type'', JStr ''text''), (''text'', JStr ''Hel'')]])]]
                    (Some (ErrorObj ''socket closed''))))
     (Some (JObj [(''stream'', JBool True)]))) = JStr ''invalid_request_error'' \<and>
   map isChunkFrame (streamingBody fixedEnv
     (constClient (ChunkSeq [JObj [(''parts'', JArr [JObj [(''type'', JStr ''text''), (''text'', JStr ''Hel'')]])]]
                    (Some (ErrorObj ''socket closed''))))
     (fromOaRequest (JObj [(''stream'', JBool True)]))) = [True, False, False] \<and>
   map deltaContent (streamingBody fixedEnv
     (constClient (ChunkSeq [JObj [(''parts'', JArr [JObj [(''type'', JStr ''text''), (''text'', JStr ''Hel'')]])]]
                    (Some (ErrorObj ''socket closed''))))
     (fromOaRequest (JObj [(''stream'', JBool True)]))) = [JStr ''Hel'', JUndefined, JUndefined] \<and>
   drop 1 (streamingBody fixedEnv
     (constClient (ChunkSeq [JObj [(''parts'', JArr [JObj [(''type'', JStr ''text''), (''text'', JStr ''Hel'')]])]]
                    (Some (ErrorObj ''socket closed''))))
     (fromOaRequest (JObj [(''stream'', JBool True)])))
   = [WData (JObj [(''error'', JObj [(''message'', JStr ''socket closed''),
                                    (''type'', JStr ''server_error'')])]),
      WDone]"
  by (simp add: chatCompletions.simps streamingBody.simps streamTry.simps constClient_def fixedEnv_def
      fromOaRequest.simps buildMessageParts.simps writeChunk.simps toOaStreamChunk.simps)


text \<open>
  Claim C9 says that a single non-iterable reply always gives exactly one chunk frame
  before the sentinel. The callback, run against a reply whose text is empty, writes the
  sentinel alone.
\<close>

theorem fallback_reply_counterexample:
  "streamingBody fixedEnv
     (constClient (Reply (JObj [(''parts'', JArr [JObj [(''type'', JStr ''text''), (''text'', JStr [])]])])))
     (fromOaRequest (JObj [(''stream'', JBool True)]))
   = [WDone]"
  by (simp add: streamingBody.simps streamTry.simps constClient_def fixedEnv_def
      fromOaRequest.simps buildMessageParts.simps fallbackReply.simps)

text \<open>
  Claim C9, amended. When the callback handed to \<^verbatim>\<open>c.streaming\<close> (source lines 172 to
  246) is run and the backend returns a single non-iterable reply whose parts, when
  present, are an array of objects, the callback writes exactly one frame, a
  \<^verbatim>\<open>chat.completion.chunk\<close> whose \<^verbatim>\<open>delta.content\<close> is the concatenated text of the
  reply's text parts, when that text is not empty, and no frame when it is empty; the
  sentinel follows in both cases.
\<close>

theorem fallback_reply_one_frame_when_text:
  assumes "session_create client = Inr session" and "\<not> nullish session"
    and "buildMessageParts parsed = Inr messageParts"
    and "session_message client (dot session ''id'')
           (JObj [(''parts'', JArr messageParts), (''stream'', JBool True)]) = Reply msg"
    and "wellFormedChunk msg"
  shows "(concat (map partText (filter isTextPart (chunkParts msg))) \<noteq> [] \<longrightarrow>
            (\<exists>v. streamingBody env client parsed = [WData v, WDone] \<and>
                 v = toOaStreamChunk (randomToken env 0) (clockMs env 0)
                       (JStr (concat (map partText (filter isTextPart (chunkParts msg)))))
                       (coalesce (dot parsed ''model'') (JStr ''opencode'')) \<and>
                 isChunkFrame (WData v) \<and>
                 dot v ''object'' = JStr ''chat.completion.chunk'' \<and>
                 deltaContent (WData v) =
                   JStr (concat (map partText (filter isTextPart (chunkParts msg)))))) \<and>
         (concat (map partText (filter isTextPart (chunkParts msg))) = [] \<longrightarrow>
            streamingBody env client parsed = [WDone])"
proof -
  let ?model = "coalesce (dot parsed ''model'') (JStr ''opencode'')"
  let ?text = "concat (map partText (filter isTextPart (chunkParts msg)))"
  let ?st0 = "\<lparr>written = [], calls = 0\<rparr>"
  let ?st1 = "if ?text \<noteq> [] then writeChunk env ?model (JStr ?text) ?st0 else ?st0"
  have "streamTry env client parsed ?st0 = (None, ?st1\<lparr>written := written ?st1 @ [WDone]\<rparr>)"
    using assms(1-4) fallbackReply_exact [OF assms(5), of env ?model ?st0]
    by (simp add: streamTry.simps
        del: coalesce.simps partText.simps isTextPart.simps concat_eq_Nil_conv)
  then have ws: "streamingBody env client parsed = written ?st1 @ [WDone]"
    by (simp add: streamingBody.simps
        del: coalesce.simps partText.simps isTextPart.simps concat_eq_Nil_conv)
  have some: "\<exists>v. streamingBody env client parsed = [WData v, WDone] \<and>
        v = toOaStreamChunk (randomToken env 0) (clockMs env 0) (JStr ?text) ?model \<and>
        isChunkFrame (WData v) \<and> dot v ''object'' = JStr ''chat.completion.chunk'' \<and>
        deltaContent (WData v) = JStr ?text"
    if "?text \<noteq> []"
  proof -
    let ?v = "toOaStreamChunk (randomToken env 0) (clockMs env 0) (JStr ?text) ?model"
    have "streamingBody env client parsed = [WData ?v, WDone]"
      using that ws
      by (simp add: written_writeChunk
          del: coalesce.simps partText.simps isTextPart.simps concat_eq_Nil_conv)
    moreover have "dot ?v ''object'' = JStr ''chat.completion.chunk''"
      and "dot ?v ''error'' = JUndefined"
      and "deltaContent (WData ?v) = JStr ?text"
      unfolding toOaStreamChunk.simps by simp_all
    ultimately show ?thesis by simp
  qed
  have none: "streamingBody env client parsed = [WDone]" if "?text = []"
    using that ws
    by (simp del: coalesce.simps partText.simps isTextPart.simps concat_eq_Nil_conv)
  from some none show ?thesis by blast
qed

theorem fallback_reply_one_frame_when_text_witness:
  "streamingBody fixedEnv mockClient
     (fromOaRequest (JObj [(''stream'', JBool True),
        (''messages'', JArr [JObj [(''role'', JStr ''user''), (''content'', JStr ''Hello'')]])]))
   = [WData (toOaStreamChunk ''k3x9'' 1700000000123 (JStr ''Hello from OpenCode!'') (JStr ''opencode'')),
      WDone] \<and>
   deltaContent (WData (toOaStreamChunk ''k3x9'' 1700000000123 (JStr ''Hello from OpenCode!'')
                          (JStr ''opencode'')))
   = JStr ''Hello from OpenCode!'' \<and>
   isChunkFrame (WData (toOaStreamChunk ''k3x9'' 1700000000123 (JStr ''Hello from OpenCode!'')
                          (JStr ''opencode''))) \<and>
   streamingBody fixedEnv
     (constClient (Reply (JObj [(''parts'', JArr [JObj [(''type'', JStr ''tool_use'')]])])))
     (fromOaRequest (JObj [(''stream'', JBool True)]))
   = [WDone]"
  using fallback_reply_one_frame_when_text [of mockClient "JObj [(''id'', JStr ''mock-session'')]"
     "fromOaRequest (JObj [(''stream'', JBool True),
        (''messages'', JArr [JObj [(''role'', JStr ''user''), (''content'', JStr ''Hello'')]])])"
     "[JObj [(''type'', JStr ''text''), (''text'', JStr ''Hello'')]]"
     "JObj [(''parts'', JArr [JObj [(''type'', JStr ''text''), (''text'', JStr ''Hello from OpenCode!'')]]),
            (''model'', JStr ''opencode/default'')]" fixedEnv]
    fallback_reply_one_frame_when_text [of
     "constClient (Reply (JObj [(''parts'', JArr [JObj [(''type'', JStr ''tool_use'')]])]))"
     "JObj [(''id'', JStr ''ses_1'')]"
     "fromOaRequest (JObj [(''stream'', JBool True)])" "[]"
     "JObj [(''parts'', JArr [JObj [(''type'', JStr ''tool_use'')]])]" fixedEnv]
  by (simp add: mockClient_def constClient_def fixedEnv_def fromOaRequest.simps pushMessage.simps
      buildMessageParts.simps wellFormedChunk.simps chunkParts.simps toOaStreamChunk.simps)

end
